theory Spec2Isabelle
  imports Main "HOL-Library.Sublist"
begin

section \<open>Python values used by \<^verbatim>\<open>chat_core.py\<close>\<close>

text \<open>
  A Python \<^verbatim>\<open>str\<close> is modelled as a \<^typ>\<open>string\<close>; a \<^typ>\<open>char\<close> stands for a code
  point below 256, so \<^const>\<open>length\<close> counts characters as Python's \<^verbatim>\<open>len\<close> does on such
  strings. Strings with code points from 256 on are outside the model.

  \<^verbatim>\<open>str.isspace\<close> holds below 256 exactly for the code points 9-13, 28-32, 133 and 160;
  \<^verbatim>\<open>str.lower\<close> moves A-Z and the Latin-1 capitals 192-222 (without the multiplication
  sign 215) up by 32 and keeps every other code point below 256.
\<close>

definition py_isspace :: "char \<Rightarrow> bool" where
  "py_isspace c = (of_char c \<in> {9, 10, 11, 12, 13, 28, 29, 30, 31, 32, 133, 160 :: nat})"

definition py_lower_char :: "char \<Rightarrow> char" where
  "py_lower_char c =
     (let n = of_char c :: nat
      in if (65 \<le> n \<and> n \<le> 90) \<or> (192 \<le> n \<and> n \<le> 222 \<and> n \<noteq> 215)
         then char_of (n + 32) else c)"

definition py_lower :: "string \<Rightarrow> string" where
  "py_lower s = map py_lower_char s"

definition py_lstrip :: "string \<Rightarrow> string" where
  "py_lstrip s = dropWhile py_isspace s"

definition py_rstrip :: "string \<Rightarrow> string" where
  "py_rstrip s = rev (dropWhile py_isspace (rev s))"

definition py_strip :: "string \<Rightarrow> string" where
  "py_strip s = py_rstrip (py_lstrip s)"

text \<open>
  Slices. \<^verbatim>\<open>xs[i:]\<close> and \<^verbatim>\<open>del xs[:j]\<close> first normalise the index: a negative index
  counts from the end, and the result is clamped to the range from 0 to \<^verbatim>\<open>len(xs)\<close>.
\<close>

definition py_slice_index :: "int \<Rightarrow> nat \<Rightarrow> nat" where
  "py_slice_index i n = nat (if i < 0 then max (i + int n) 0 else min i (int n))"

definition py_slice_from :: "int \<Rightarrow> 'a list \<Rightarrow> 'a list" where
  "py_slice_from i xs = drop (py_slice_index i (length xs)) xs"

definition py_slice_upto :: "int \<Rightarrow> 'a list \<Rightarrow> 'a list" where
  "py_slice_upto j xs = take (py_slice_index j (length xs)) xs"

definition py_del_upto :: "int \<Rightarrow> 'a list \<Rightarrow> 'a list" where
  "py_del_upto j xs = drop (py_slice_index j (length xs)) xs"

datatype py_exception = Exception string

section \<open>The data of the chat engine\<close>

text \<open>A message is the dictionary \<^verbatim>\<open>{"role": ..., "content": ...}\<close>.\<close>

record message =
  role :: string
  content :: string

text \<open>
  The completion service \<^verbatim>\<open>client.chat.completions.create\<close> is outside the repository.
  It is a function of the model name and the messages (temperature and token limit are
  constants of the call); it either raises, or yields the content of the first choice,
  which may be \<^verbatim>\<open>None\<close>. Any exception inside the \<^verbatim>\<open>try\<close> block is the \<^const>\<open>Inl\<close> case.
\<close>

type_synonym completion_client = "string \<Rightarrow> message list \<Rightarrow> py_exception + string option"

record ChatEngine =
  model :: string
  memory_size :: int
  system_prompts :: "string \<rightharpoonup> string"
  enable_wiki_in_knowledge_mode :: bool
  messages :: "message list"
  client :: "completion_client option"

text \<open>
  The module-level state: whether the optional imports succeeded, what the constructor
  \<^verbatim>\<open>OpenAI()\<close> does, and the imported \<^verbatim>\<open>wiki_summary\<close>, which \<^verbatim>\<open>respond\<close> calls under
  \<^verbatim>\<open>try\<close>.
\<close>

record module_env =
  HAS_OPENAI :: bool
  HAS_WIKI :: bool
  OpenAI :: "py_exception + completion_client"
  wiki_summary :: "string \<Rightarrow> int \<Rightarrow> py_exception + string"

definition DEFAULT_CHAT_PROMPT :: string where
  "DEFAULT_CHAT_PROMPT =
     ''You are a friendly, concise AI assistant. Be helpful, honest, and '' @
     ''avoid verbosity. Use simple language unless asked for detail.''"

definition DEFAULT_CODE_PROMPT :: string where
  "DEFAULT_CODE_PROMPT =
     ''You are a senior software engineer. Provide precise, secure, and '' @
     ''production-ready answers. Show minimal runnable examples. '' @
     ''Mention time/space complexity when relevant.''"

definition DEFAULT_KNOWLEDGE_PROMPT :: string where
  "DEFAULT_KNOWLEDGE_PROMPT =
     ''You are a factual knowledge assistant. When provided with external '' @
     ''context (e.g., from Wikipedia), cite it naturally and separate facts '' @
     ''from speculation. If uncertain, say so.''"

definition DEFAULT_SYSTEM_PROMPTS :: "string \<rightharpoonup> string" where
  "DEFAULT_SYSTEM_PROMPTS =
     [''chat'' \<mapsto> DEFAULT_CHAT_PROMPT,
      ''code'' \<mapsto> DEFAULT_CODE_PROMPT,
      ''knowledge'' \<mapsto> DEFAULT_KNOWLEDGE_PROMPT]"

section \<open>The operations of \<^verbatim>\<open>ChatEngine\<close>\<close>

text \<open>
  Construction: the dataclass fields, an empty history, and \<^verbatim>\<open>__post_init__\<close>, which
  keeps the client \<^verbatim>\<open>None\<close> when the SDK is missing or its constructor raises.
\<close>

definition post_init :: "module_env \<Rightarrow> ChatEngine \<Rightarrow> ChatEngine" where
  "post_init env self =
     (if HAS_OPENAI env
      then (case OpenAI env of
              Inr c \<Rightarrow> self\<lparr>client := Some c\<rparr>
            | Inl e \<Rightarrow> self)
      else self)"

definition new_ChatEngine ::
  "module_env \<Rightarrow> string \<Rightarrow> int \<Rightarrow> (string \<rightharpoonup> string) \<Rightarrow> bool \<Rightarrow> ChatEngine" where
  "new_ChatEngine env mdl capacity prompts wiki =
     post_init env
       \<lparr>model = mdl, memory_size = capacity, system_prompts = prompts,
        enable_wiki_in_knowledge_mode = wiki, messages = [], client = None\<rparr>"

definition reset :: "ChatEngine \<Rightarrow> ChatEngine" where
  "reset self = self\<lparr>messages := []\<rparr>"

text \<open>
  \<^verbatim>\<open>get_history\<close> on values: the call returns the contents of the history and leaves the
  engine as it is. The identity of the returned list is the subject of the store model
  below.
\<close>

definition get_history :: "ChatEngine \<Rightarrow> message list" where
  "get_history self = messages self"

definition set_system_prompt :: "ChatEngine \<Rightarrow> string \<Rightarrow> string \<Rightarrow> ChatEngine" where
  "set_system_prompt self mode prompt =
     self\<lparr>system_prompts := (system_prompts self)(mode \<mapsto> prompt)\<rparr>"

text \<open>\<^verbatim>\<open>_normalize_mode\<close>; the argument \<^verbatim>\<open>None\<close> is \<^const>\<open>None\<close>, and \<^verbatim>\<open>mode or ""\<close> makes it empty.\<close>

definition normalize_mode :: "string option \<Rightarrow> string" where
  "normalize_mode mode =
     (let m = py_lower (py_strip (case mode of None \<Rightarrow> [] | Some s \<Rightarrow> s))
      in if m \<in> {''chat''} then ''chat''
         else if m \<in> {''code'', ''code helper'', ''programming''} then ''code''
         else if m \<in> {''knowledge'', ''facts'', ''knowledge assistant''} then ''knowledge''
         else ''chat'')"

text \<open>\<^verbatim>\<open>_append_message\<close>: append, then delete the overflow from the front.\<close>

definition append_message :: "ChatEngine \<Rightarrow> message \<Rightarrow> ChatEngine" where
  "append_message self msg =
     (let ms = messages self @ [msg];
          overflow = max 0 (int (length ms) - memory_size self)
      in if overflow \<noteq> 0
         then self\<lparr>messages := py_del_upto overflow ms\<rparr>
         else self\<lparr>messages := ms\<rparr>)"

text \<open>
  \<^verbatim>\<open>_build_model_messages\<close>. The test \<^verbatim>\<open>if tool_context\<close> is false for \<^verbatim>\<open>None\<close> and for
  the empty string. The history is cut by the slice
  \<^verbatim>\<open>[-(memory_size - len(msgs)):]\<close>.
\<close>

definition context_instruction :: string where
  "context_instruction =
     ''Use the following external context to answer. Cite it naturally '' @
     ''when used.'' @ [CHR 0x0A]"

definition system_messages :: "string \<Rightarrow> string option \<Rightarrow> message list" where
  "system_messages system_prompt tool_context =
     (let msgs = [\<lparr>role = ''system'', content = system_prompt\<rparr>]
      in case tool_context of
           None \<Rightarrow> msgs
         | Some tc \<Rightarrow>
             if tc \<noteq> []
             then msgs @ [\<lparr>role = ''system'', content = context_instruction @ tc\<rparr>]
             else msgs)"

definition build_model_messages :: "ChatEngine \<Rightarrow> string \<Rightarrow> string option \<Rightarrow> message list" where
  "build_model_messages self system_prompt tool_context =
     (let msgs = system_messages system_prompt tool_context
      in msgs @ py_slice_from (- (memory_size self - int (length msgs))) (messages self))"

text \<open>\<^verbatim>\<open>_local_stub\<close>: the first user message of the reversed sequence, cut to 400.\<close>

definition fallback_prefix :: string where
  "fallback_prefix = ''[Local fallback] I can't reach the model. Echo: ''"

definition local_stub :: "message list \<Rightarrow> string" where
  "local_stub msgs =
     (let last_user = (case find (\<lambda>m. role m = ''user'') (rev msgs) of
                         Some m \<Rightarrow> content m
                       | None \<Rightarrow> [])
      in fallback_prefix @ py_slice_upto 400 last_user)"

text \<open>\<^verbatim>\<open>_call_llm\<close>: the fallback when there is no client, and when the call raises.\<close>

definition call_llm :: "module_env \<Rightarrow> ChatEngine \<Rightarrow> message list \<Rightarrow> string" where
  "call_llm env self msgs =
     (if \<not> HAS_OPENAI env \<or> client self = None then local_stub msgs
      else case client self of
             None \<Rightarrow> local_stub msgs
           | Some c \<Rightarrow>
               (case c (model self) msgs of
                  Inr resp \<Rightarrow> py_strip (case resp of None \<Rightarrow> [] | Some s \<Rightarrow> s)
                | Inl e \<Rightarrow> local_stub msgs))"

text \<open>
  The completion is unavailable or fails on a message sequence: the SDK is missing, the
  engine has no client, or the call of the client raises.
\<close>

definition completion_fails :: "module_env \<Rightarrow> ChatEngine \<Rightarrow> message list \<Rightarrow> bool" where
  "completion_fails env self msgs =
     (\<not> HAS_OPENAI env \<or>
      (case client self of
         None \<Rightarrow> True
       | Some c \<Rightarrow> (case c (model self) msgs of Inl e \<Rightarrow> True | Inr resp \<Rightarrow> False)))"

text \<open>
  The enrichment step of \<^verbatim>\<open>respond\<close> (lines 122-131): the value of \<^verbatim>\<open>tool_context\<close>
  after the \<^verbatim>\<open>try\<close> block.
\<close>

definition wiki_tool_context :: "module_env \<Rightarrow> ChatEngine \<Rightarrow> string \<Rightarrow> string \<Rightarrow> string option" where
  "wiki_tool_context env self mode_key user_input =
     (if mode_key = ''knowledge'' \<and> enable_wiki_in_knowledge_mode self \<and> HAS_WIKI env
      then (case wiki_summary env user_input 4 of
              Inl e \<Rightarrow> None
            | Inr summary \<Rightarrow>
                if py_strip summary \<noteq> []
                then Some ([CHR 0x0A] @ ''[External Source: Wikipedia]'' @ [CHR 0x0A] @
                           py_strip summary @ [CHR 0x0A] @ ''[End Source]'' @ [CHR 0x0A])
                else None)
      else None)"

text \<open>
  The enrichment lookup gives nothing usable for an input: the call raises, or its result
  is empty after stripping.
\<close>

definition enrichment_unusable :: "module_env \<Rightarrow> string \<Rightarrow> bool" where
  "enrichment_unusable env user_input =
     (case wiki_summary env user_input 4 of
        Inl e \<Rightarrow> True
      | Inr summary \<Rightarrow> py_strip summary = [])"

text \<open>The lookup \<^verbatim>\<open>self.system_prompts.get(mode_key, DEFAULT_SYSTEM_PROMPTS["chat"])\<close>.\<close>

definition prompt_for :: "ChatEngine \<Rightarrow> string \<Rightarrow> string" where
  "prompt_for self mode_key =
     (case system_prompts self mode_key of
        Some p \<Rightarrow> p
      | None \<Rightarrow> DEFAULT_CHAT_PROMPT)"

text \<open>The local \<^verbatim>\<open>messages\<close> of \<^verbatim>\<open>respond\<close>: what is sent to the model in this turn.\<close>

definition assembled_messages ::
  "module_env \<Rightarrow> ChatEngine \<Rightarrow> string \<Rightarrow> string option \<Rightarrow> message list" where
  "assembled_messages env self user_input mode =
     (let mode_key = normalize_mode mode;
          system_prompt = prompt_for self mode_key;
          self1 = append_message self \<lparr>role = ''user'', content = user_input\<rparr>;
          tool_context = wiki_tool_context env self1 mode_key user_input
      in build_model_messages self1 system_prompt tool_context)"

text \<open>\<^verbatim>\<open>respond\<close> returns the reply and the engine after the turn.\<close>

definition respond ::
  "module_env \<Rightarrow> ChatEngine \<Rightarrow> string \<Rightarrow> string option \<Rightarrow> string \<times> ChatEngine" where
  "respond env self user_input mode =
     (let mode_key = normalize_mode mode;
          system_prompt = prompt_for self mode_key;
          self1 = append_message self \<lparr>role = ''user'', content = user_input\<rparr>;
          tool_context = wiki_tool_context env self1 mode_key user_input;
          msgs = build_model_messages self1 system_prompt tool_context;
          reply_text = call_llm env self1 msgs;
          self2 = append_message self1 \<lparr>role = ''assistant'', content = reply_text\<rparr>
      in (reply_text, self2))"

section \<open>\<^verbatim>\<open>knowledge.py\<close>\<close>

text \<open>
  \<^verbatim>\<open>get_summary\<close> wraps the call \<^verbatim>\<open>wikipedia.summary\<close> of the third-party package, whose
  outcomes are a summary or one of the exceptions the function catches.
\<close>

datatype wikipedia_outcome =
  Summary string
| DisambiguationError "string list"
| PageError
| OtherError string

fun join :: "string \<Rightarrow> string list \<Rightarrow> string" where
  "join sep [] = []"
| "join sep [x] = x"
| "join sep (x # y # ys) = x @ sep @ join sep (y # ys)"

definition get_summary :: "(string \<Rightarrow> int \<Rightarrow> wikipedia_outcome) \<Rightarrow> string \<Rightarrow> int \<Rightarrow> string" where
  "get_summary wikipedia query sentences =
     (case wikipedia query sentences of
        Summary s \<Rightarrow> s
      | DisambiguationError options \<Rightarrow>
          ''The term '' @ [CHR 0x27] @ query @ [CHR 0x27] @
          '' is ambiguous. Possible options include: '' @
          join '', '' (py_slice_upto 5 options)
      | PageError \<Rightarrow>
          ''No Wikipedia page found for '' @ [CHR 0x27] @ query @ [CHR 0x27] @ ''.''
      | OtherError e \<Rightarrow> ''Wikipedia lookup failed: '' @ e)"

section \<open>The store: list objects and their identity\<close>

text \<open>
  \<^verbatim>\<open>list(self._messages)\<close> allocates a new list object holding the same message objects.
  A store maps the address of a list object to the addresses of its items and the address
  of a message object to its value; \<open>next_ref\<close> is the next free address.
\<close>

type_synonym ref = nat

record store =
  lists :: "ref \<rightharpoonup> ref list"
  dicts :: "ref \<rightharpoonup> message"
  next_ref :: ref

text \<open>\<^verbatim>\<open>get_history\<close> on the store: \<open>r\<close> is the address held by \<^verbatim>\<open>self._messages\<close>.\<close>

definition get_history_store :: "store \<Rightarrow> ref \<Rightarrow> ref \<times> store" where
  "get_history_store h r =
     (let a = next_ref h
      in (a, h\<lparr>lists := (lists h)(a := lists h r), next_ref := Suc a\<rparr>))"

text \<open>
  Any in-place operation on the list object at an address (append, item assignment,
  deletion, sort, clear) replaces its items by a function of them.
\<close>

definition mutate_list :: "store \<Rightarrow> ref \<Rightarrow> (ref list \<Rightarrow> ref list) \<Rightarrow> store" where
  "mutate_list h a f = h\<lparr>lists := (lists h)(a := map_option f (lists h a))\<rparr>"

text \<open>In-place change of a message object, for example \<^verbatim>\<open>d["content"] = s\<close>.\<close>

definition mutate_dict :: "store \<Rightarrow> ref \<Rightarrow> (message \<Rightarrow> message) \<Rightarrow> store" where
  "mutate_dict h d f = h\<lparr>dicts := (dicts h)(d := map_option f (dicts h d))\<rparr>"

text \<open>The messages a list object holds, read through the store.\<close>

definition read_list :: "store \<Rightarrow> ref \<Rightarrow> message option list option" where
  "read_list h r = map_option (map (dicts h)) (lists h r)"

definition store_ok :: "store \<Rightarrow> bool" where
  "store_ok h = (\<forall>a \<in> dom (lists h). a < next_ref h)"

section \<open>Example configurations\<close>

text \<open>
  An installation without the optional packages: both imports fail, so no client is ever
  created and no enrichment is attempted.
\<close>

definition offline_env :: module_env where
  "offline_env =
     \<lparr>HAS_OPENAI = False, HAS_WIKI = False,
      OpenAI = Inl (Exception ''ImportError''),
      wiki_summary = (\<lambda>query sentences. Inl (Exception ''ImportError''))\<rparr>"

definition offline_engine :: "int \<Rightarrow> ChatEngine" where
  "offline_engine capacity =
     new_ChatEngine offline_env ''gpt-4o-mini'' capacity DEFAULT_SYSTEM_PROMPTS True"

text \<open>An installation whose completion service is unreachable: every call raises.\<close>

definition failing_client :: completion_client where
  "failing_client mdl msgs = Inl (Exception ''APIConnectionError'')"

definition failing_env :: module_env where
  "failing_env =
     \<lparr>HAS_OPENAI = True, HAS_WIKI = False,
      OpenAI = Inr failing_client,
      wiki_summary = (\<lambda>query sentences. Inl (Exception ''ImportError''))\<rparr>"

definition failing_engine :: "int \<Rightarrow> ChatEngine" where
  "failing_engine capacity =
     new_ChatEngine failing_env ''gpt-4o-mini'' capacity DEFAULT_SYSTEM_PROMPTS True"

text \<open>An installation whose Wikipedia lookup answers every query with blanks.\<close>

definition blank_wiki_env :: module_env where
  "blank_wiki_env =
     \<lparr>HAS_OPENAI = False, HAS_WIKI = True,
      OpenAI = Inl (Exception ''ImportError''),
      wiki_summary = (\<lambda>query sentences. Inr ''  '')\<rparr>"

text \<open>
  A store with one history list at address 0, holding the message objects at addresses 1
  and 2.
\<close>

definition example_store :: store where
  "example_store =
     \<lparr>lists = [0 \<mapsto> [1, 2]],
      dicts = [1 \<mapsto> \<lparr>role = ''user'', content = ''hi''\<rparr>,
               2 \<mapsto> \<lparr>role = ''assistant'', content = ''hello''\<rparr>],
      next_ref = 3\<rparr>"

section \<open>Facts about strings and slices\<close>

lemma py_isspace_lower: "py_isspace (py_lower_char c) = py_isspace c"
proof -
  have "of_char c < (256::nat)" by simp
  then show ?thesis
    unfolding py_isspace_def py_lower_char_def Let_def
    by (auto simp: of_char_of [where ?'a = nat] )
qed

lemma py_lstrip_lower: "py_lstrip (py_lower s) = py_lower (py_lstrip s)"
  by (simp add: py_lstrip_def py_lower_def dropWhile_map comp_def py_isspace_lower)

lemma py_rstrip_lower: "py_rstrip (py_lower s) = py_lower (py_rstrip s)"
  by (simp add: py_rstrip_def py_lower_def dropWhile_map comp_def py_isspace_lower rev_map)

lemma py_strip_lower: "py_strip (py_lower s) = py_lower (py_strip s)"
  by (simp add: py_strip_def py_lstrip_lower py_rstrip_lower)

lemma py_rstrip_append_space:
  assumes "\<forall>c \<in> set post. py_isspace c"
  shows "py_rstrip (s @ post) = py_rstrip s"
proof -
  have "\<And>x. x \<in> set (rev post) \<Longrightarrow> py_isspace x"
    using assms by simp
  then have "dropWhile py_isspace (rev post @ rev s) = dropWhile py_isspace (rev s)"
    by (rule dropWhile_append2)
  then show ?thesis by (simp add: py_rstrip_def)
qed

lemma py_strip_padding:
  assumes "\<forall>c \<in> set pre. py_isspace c" and "\<forall>c \<in> set post. py_isspace c"
  shows "py_strip (pre @ s @ post) = py_strip s"
proof -
  have l: "py_lstrip (pre @ s @ post) = py_lstrip (s @ post)"
    using assms(1) by (simp add: py_lstrip_def dropWhile_append2)
  show ?thesis
  proof (cases "\<forall>c \<in> set s. py_isspace c")
    case True
    then have "py_lstrip (s @ post) = []" "py_lstrip s = []"
      using assms(2) by (auto simp: py_lstrip_def)
    then show ?thesis by (simp add: py_strip_def l py_rstrip_def)
  next
    case False
    then have "py_lstrip (s @ post) = py_lstrip s @ post"
      by (auto simp: py_lstrip_def dropWhile_append1)
    then show ?thesis
      by (simp add: py_strip_def l py_rstrip_append_space [OF assms(2)])
  qed
qed

lemma py_del_upto_pos: "0 < j \<Longrightarrow> py_del_upto j xs = drop (nat j) xs"
  by (auto simp: py_del_upto_def py_slice_index_def min_def)

lemma drop_window_snoc:
  assumes "0 < c"
  shows "drop (Suc (length (drop (length xs - c) xs)) - c) (drop (length xs - c) xs @ [m]) =
         drop (Suc (length xs) - c) (xs @ [m])"
proof (cases "length xs \<le> c")
  case True
  then show ?thesis by simp
next
  case False
  then have l: "length (drop (length xs - c) xs) = c" by simp
  have d: "Suc (length xs) - c = Suc (length xs - c)"
    using False by arith
  have ne: "drop (length xs - c) xs \<noteq> []"
    using l assms by auto
  have "drop (Suc c - c) (drop (length xs - c) xs @ [m]) = drop 1 (drop (length xs - c) xs) @ [m]"
    using ne by (cases "drop (length xs - c) xs") simp_all
  also have "\<dots> = drop (Suc (length xs - c)) xs @ [m]"
    by simp
  also have "\<dots> = drop (Suc (length xs) - c) (xs @ [m])"
    unfolding d using False assms by simp
  finally show ?thesis unfolding l .
qed

lemma py_slice_from_neg:
  "0 < k \<Longrightarrow> py_slice_from (- k) xs = drop (length xs - nat k) xs"
proof -
  assume k: "0 < k"
  have "nat (max (- k + int (length xs)) 0) = length xs - nat k"
    using k by (simp add: max_def) arith
  then show ?thesis using k by (simp add: py_slice_from_def py_slice_index_def)
qed

lemma py_slice_from_zero: "py_slice_from 0 xs = xs"
  by (simp add: py_slice_from_def py_slice_index_def)

lemma py_slice_from_pos: "0 \<le> k \<Longrightarrow> py_slice_from k xs = drop (nat k) xs"
  by (auto simp: py_slice_from_def py_slice_index_def min_def)

lemma py_slice_upto_take: "0 \<le> k \<Longrightarrow> py_slice_upto k xs = take (nat k) xs"
  by (auto simp: py_slice_upto_def py_slice_index_def min_def)

section \<open>Mode resolution\<close>

text \<open>
  Claim C3. \<^const>\<open>normalize_mode\<close> always returns one of \<open>chat\<close>, \<open>code\<close> and
  \<open>knowledge\<close>. Its result does not change when whitespace is put around the label or
  when the case of its letters changes; a label that is, trimmed and lowercased, one of
  \<open>code\<close>, \<open>code helper\<close>, \<open>programming\<close> gives \<open>code\<close>, one of \<open>knowledge\<close>, \<open>facts\<close>,
  \<open>knowledge assistant\<close> gives \<open>knowledge\<close>, and every other label, the empty one and
  \<^verbatim>\<open>None\<close> give \<open>chat\<close>. So \<open>Programming\<close> resolves to \<open>code\<close> and \<open>banana\<close> to \<open>chat\<close>.
\<close>

theorem normalize_mode_canonical:
  "normalize_mode mode \<in> {''chat'', ''code'', ''knowledge''}
   \<and> ((\<forall>c \<in> set pre \<union> set post. py_isspace c) \<longrightarrow>
        normalize_mode (Some (pre @ s @ post)) = normalize_mode (Some s))
   \<and> (py_lower s = py_lower t \<longrightarrow> normalize_mode (Some s) = normalize_mode (Some t))
   \<and> (py_lower (py_strip s) \<in> {''code'', ''code helper'', ''programming''} \<longrightarrow>
        normalize_mode (Some s) = ''code'')
   \<and> (py_lower (py_strip s) \<in> {''knowledge'', ''facts'', ''knowledge assistant''} \<longrightarrow>
        normalize_mode (Some s) = ''knowledge'')
   \<and> (py_lower (py_strip s) \<notin> {''code'', ''code helper'', ''programming'',
          ''knowledge'', ''facts'', ''knowledge assistant''} \<longrightarrow>
        normalize_mode (Some s) = ''chat'')
   \<and> normalize_mode None = ''chat''
   \<and> normalize_mode (Some []) = ''chat''
   \<and> normalize_mode (Some ''Programming'') = ''code''
   \<and> normalize_mode (Some ''banana'') = ''chat''"
proof -
  have a: "normalize_mode mode \<in> {''chat'', ''code'', ''knowledge''}"
    by (simp add: normalize_mode_def Let_def)
  have b: "normalize_mode (Some (pre @ s @ post)) = normalize_mode (Some s)"
    if "\<forall>c \<in> set pre \<union> set post. py_isspace c"
    using that by (simp add: normalize_mode_def py_strip_padding)
  have c: "normalize_mode (Some s) = normalize_mode (Some t)" if "py_lower s = py_lower t"
  proof -
    have "py_lower (py_strip s) = py_strip (py_lower s)" by (simp add: py_strip_lower)
    also have "\<dots> = py_strip (py_lower t)" using that by simp
    also have "\<dots> = py_lower (py_strip t)" by (simp add: py_strip_lower)
    finally show ?thesis by (simp add: normalize_mode_def)
  qed
  have d: "normalize_mode (Some s) = ''code''"
    if "py_lower (py_strip s) \<in> {''code'', ''code helper'', ''programming''}"
    using that by (auto simp: normalize_mode_def Let_def)
  have e: "normalize_mode (Some s) = ''knowledge''"
    if "py_lower (py_strip s) \<in> {''knowledge'', ''facts'', ''knowledge assistant''}"
    using that by (auto simp: normalize_mode_def Let_def)
  have f: "normalize_mode (Some s) = ''chat''"
    if "py_lower (py_strip s) \<notin> {''code'', ''code helper'', ''programming'',
          ''knowledge'', ''facts'', ''knowledge assistant''}"
    using that by (auto simp: normalize_mode_def Let_def)
  have g: "normalize_mode None = ''chat''" "normalize_mode (Some []) = ''chat''"
    by (simp_all add: normalize_mode_def py_strip_def py_lstrip_def py_rstrip_def py_lower_def)
  have h: "normalize_mode (Some ''Programming'') = ''code''" by code_simp
  have i: "normalize_mode (Some ''banana'') = ''chat''" by code_simp
  from a b c d e f g h i show ?thesis by blast
qed

theorem normalize_mode_canonical_witness:
  "py_isspace (CHR '' '') \<and> py_isspace (CHR 0x09) \<and> py_isspace (CHR 0x0A)
   \<and> py_lower ''Code Helper'' = py_lower ''cODE hELPER''
   \<and> py_lower (py_strip ''Code Helper'') \<in> {''code'', ''code helper'', ''programming''}
   \<and> normalize_mode (Some ('' '' @ ''Code Helper'' @ [CHR 0x09, CHR 0x0A])) = ''code''
   \<and> normalize_mode (Some ''cODE hELPER'') = ''code''"
proof -
  have sp: "\<forall>c \<in> set '' '' \<union> set [CHR 0x09, CHR 0x0A]. py_isspace c"
    by (simp add: py_isspace_def)
  have lo: "py_lower ''Code Helper'' = py_lower ''cODE hELPER''"
    by code_simp
  have m: "py_lower (py_strip ''Code Helper'') \<in> {''code'', ''code helper'', ''programming''}"
    by code_simp
  note t = normalize_mode_canonical [of "Some ''FACTS''" "'' ''" "[CHR 0x09, CHR 0x0A]" "''Code Helper''" "''cODE hELPER''"]
  from t m have c: "normalize_mode (Some ''Code Helper'') = ''code''"
    by (elim conjE) (erule (1) mp)
  from t sp have p: "normalize_mode (Some ('' '' @ ''Code Helper'' @ [CHR 0x09, CHR 0x0A])) =
      normalize_mode (Some ''Code Helper'')"
    by (elim conjE) (erule (1) mp)
  from t lo have l: "normalize_mode (Some ''Code Helper'') = normalize_mode (Some ''cODE hELPER'')"
    by (elim conjE) (erule (1) mp)
  have ws: "py_isspace (CHR '' '')" "py_isspace (CHR 0x09)" "py_isspace (CHR 0x0A)"
    by (simp_all add: py_isspace_def)
  show ?thesis
    using ws lo m c p l by (intro conjI) (simp_all only:)
qed

section \<open>The bounded history\<close>

lemma append_message_messages:
  assumes "0 < memory_size self"
  shows "messages (append_message self msg) =
           drop (Suc (length (messages self)) - nat (memory_size self)) (messages self @ [msg])"
proof -
  let ?ms = "messages self @ [msg]"
  let ?overflow = "max 0 (int (length ?ms) - memory_size self)"
  have n: "nat ?overflow = Suc (length (messages self)) - nat (memory_size self)"
    using assms by (simp add: max_def) arith
  show ?thesis
  proof (cases "?overflow = 0")
    case True
    with n have "Suc (length (messages self)) - nat (memory_size self) = 0" by simp
    with True show ?thesis by (simp add: append_message_def Let_def)
  next
    case False
    then have "0 < ?overflow" by simp
    then have "py_del_upto ?overflow ?ms = drop (nat ?overflow) ?ms"
      by (rule py_del_upto_pos)
    with False n show ?thesis by (simp add: append_message_def Let_def)
  qed
qed

lemma append_message_frame:
  "memory_size (append_message self msg) = memory_size self"
  "model (append_message self msg) = model self"
  "system_prompts (append_message self msg) = system_prompts self"
  "enable_wiki_in_knowledge_mode (append_message self msg) = enable_wiki_in_knowledge_mode self"
  "client (append_message self msg) = client self"
  by (simp_all add: append_message_def Let_def)

lemma append_message_length:
  assumes "0 < memory_size self"
  shows "length (messages (append_message self msg)) =
           min (Suc (length (messages self))) (nat (memory_size self))"
  by (simp add: append_message_messages [OF assms])

lemma foldl_append_message_frame:
  "memory_size (foldl append_message self ms) = memory_size self"
  by (induction ms arbitrary: self) (simp_all add: append_message_frame)

lemma foldl_append_message_messages:
  assumes "0 < memory_size self"
    and "ms \<noteq> [] \<or> length (messages self) \<le> nat (memory_size self)"
  shows "messages (foldl append_message self ms) =
           drop (length (messages self @ ms) - nat (memory_size self)) (messages self @ ms)"
  using assms
proof (induction ms rule: rev_induct)
  case Nil
  then show ?case by simp
next
  case (snoc m ms)
  let ?c = "nat (memory_size self)"
  let ?e = "foldl append_message self ms"
  have c: "0 < memory_size ?e"
    using snoc.prems(1) by (simp add: foldl_append_message_frame)
  have cpos: "0 < ?c" using snoc.prems(1) by simp
  have step: "messages (foldl append_message self (ms @ [m])) =
        drop (Suc (length (messages ?e)) - ?c) (messages ?e @ [m])"
    using append_message_messages [OF c, of m] by (simp add: foldl_append_message_frame)
  show ?case
  proof (cases "ms = []")
    case True
    then show ?thesis using step by simp
  next
    case False
    then have ih: "messages ?e = drop (length (messages self @ ms) - ?c) (messages self @ ms)"
      using snoc.IH snoc.prems(1) by simp
    show ?thesis
      unfolding step ih using drop_window_snoc [OF cpos, of "messages self @ ms" m]
      by (simp del: drop_append)
  qed
qed

lemma foldl_append_message_length:
  assumes "0 < memory_size self"
    and "ms \<noteq> [] \<or> length (messages self) \<le> nat (memory_size self)"
  shows "int (length (messages (foldl append_message self ms))) \<le> memory_size self"
  using assms(1) by (simp add: foldl_append_message_messages [OF assms])


lemma respond_engine:
  "snd (respond env self user_input mode) =
     append_message (append_message self \<lparr>role = ''user'', content = user_input\<rparr>)
       \<lparr>role = ''assistant'', content = fst (respond env self user_input mode)\<rparr>"
  by (simp add: respond_def Let_def)

lemma respond_reply:
  "fst (respond env self user_input mode) =
     call_llm env (append_message self \<lparr>role = ''user'', content = user_input\<rparr>)
       (assembled_messages env self user_input mode)"
  by (simp add: respond_def assembled_messages_def Let_def)

lemma respond_frame:
  "memory_size (snd (respond env self user_input mode)) = memory_size self"
  "model (snd (respond env self user_input mode)) = model self"
  "system_prompts (snd (respond env self user_input mode)) = system_prompts self"
  "client (snd (respond env self user_input mode)) = client self"
  by (simp_all add: respond_engine append_message_frame)

lemma respond_messages:
  assumes "0 < memory_size self"
  shows "messages (snd (respond env self user_input mode)) =
           drop (length (messages self) + 2 - nat (memory_size self))
             (messages self @ [\<lparr>role = ''user'', content = user_input\<rparr>,
                \<lparr>role = ''assistant'', content = fst (respond env self user_input mode)\<rparr>])"
proof -
  let ?u = "\<lparr>role = ''user'', content = user_input\<rparr>"
  let ?a = "\<lparr>role = ''assistant'', content = fst (respond env self user_input mode)\<rparr>"
  have "snd (respond env self user_input mode) = foldl append_message self [?u, ?a]"
    by (simp add: respond_engine)
  then show ?thesis
    using foldl_append_message_messages [OF assms, of "[?u, ?a]"] by simp
qed

lemma offline_engine_fields:
  "memory_size (offline_engine n) = n"
  "messages (offline_engine n) = []"
  "client (offline_engine n) = None"
  "model (offline_engine n) = ''gpt-4o-mini''"
  "system_prompts (offline_engine n) = DEFAULT_SYSTEM_PROMPTS"
  "enable_wiki_in_knowledge_mode (offline_engine n) = True"
  by (simp_all add: offline_engine_def new_ChatEngine_def post_init_def offline_env_def)

text \<open>
  Claim C1. For an engine with \<open>memory_size > 0\<close>, the history after an append never has
  more than \<open>memory_size\<close> messages, from whatever history the append starts; the append
  removes exactly the excess from the front and keeps the order of the other messages. A
  sequence of appends on an empty history leaves the last \<open>memory_size\<close> messages of the
  sequence, and a turn of \<^const>\<open>respond\<close> keeps the bound.
\<close>

theorem append_message_bounded:
  assumes "0 < memory_size self"
  shows "int (length (messages (append_message self msg))) \<le> memory_size self
       \<and> messages (append_message self msg) =
           drop (length (messages self @ [msg]) - nat (memory_size self)) (messages self @ [msg])
       \<and> int (length (messages (foldl append_message (reset self) ms))) \<le> memory_size self
       \<and> messages (foldl append_message (reset self) ms) = drop (length ms - nat (memory_size self)) ms
       \<and> int (length (messages (snd (respond env self user_input mode)))) \<le> memory_size self"
proof -
  have r: "0 < memory_size (reset self)" "messages (reset self) = []"
    using assms by (simp_all add: reset_def)
  have a: "int (length (messages (append_message self msg))) \<le> memory_size self"
    using assms by (simp add: append_message_length)
  have b: "messages (append_message self msg) =
           drop (length (messages self @ [msg]) - nat (memory_size self)) (messages self @ [msg])"
    using append_message_messages [OF assms, of msg] by simp
  have c: "messages (foldl append_message (reset self) ms) = drop (length ms - nat (memory_size self)) ms"
    using foldl_append_message_messages [OF r(1), of ms] r(2) by (simp add: reset_def)
  have d: "int (length (messages (foldl append_message (reset self) ms))) \<le> memory_size self"
    unfolding c using assms by simp
  have e: "int (length (messages (snd (respond env self user_input mode)))) \<le> memory_size self"
    unfolding respond_messages [OF assms] using assms by simp
  from a b c d e show ?thesis by blast
qed

theorem append_message_bounded_witness:
  "0 < memory_size (offline_engine 2)
   \<and> messages (foldl append_message (reset (offline_engine 2))
        [\<lparr>role = ''user'', content = ''a''\<rparr>, \<lparr>role = ''assistant'', content = ''b''\<rparr>,
         \<lparr>role = ''user'', content = ''c''\<rparr>]) =
       [\<lparr>role = ''assistant'', content = ''b''\<rparr>, \<lparr>role = ''user'', content = ''c''\<rparr>]
   \<and> int (length (messages (snd (respond offline_env (offline_engine 2) ''hi'' (Some ''chat''))))) \<le> 2"
proof -
  have h: "0 < memory_size (offline_engine 2)"
    by (simp add: offline_engine_fields)
  show ?thesis
    using h append_message_bounded [OF h, of "\<lparr>role = ''user'', content = ''a''\<rparr>"
        "[\<lparr>role = ''user'', content = ''a''\<rparr>, \<lparr>role = ''assistant'', content = ''b''\<rparr>,
          \<lparr>role = ''user'', content = ''c''\<rparr>]" offline_env "''hi''" "Some ''chat''"]
    by (simp add: offline_engine_fields)
qed

text \<open>
  Claim C5. An engine with capacity 4 and an empty history answers three turns. Each turn
  appends the user message and the reply, six messages in all; afterwards
  \<^const>\<open>get_history\<close> has exactly four messages, those of the second and third turn, and
  the two messages of the first turn are gone.
\<close>

theorem three_turns_capacity_four:
  "(let e0 = self\<lparr>memory_size := 4, messages := []\<rparr>;
        t1 = respond env e0 x1 m1;
        t2 = respond env (snd t1) x2 m2;
        t3 = respond env (snd t2) x3 m3
    in length (get_history (snd t3)) = 4
       \<and> get_history (snd t3) =
           drop 2 [\<lparr>role = ''user'', content = x1\<rparr>, \<lparr>role = ''assistant'', content = fst t1\<rparr>,
                   \<lparr>role = ''user'', content = x2\<rparr>, \<lparr>role = ''assistant'', content = fst t2\<rparr>,
                   \<lparr>role = ''user'', content = x3\<rparr>, \<lparr>role = ''assistant'', content = fst t3\<rparr>])"
proof -
  define e0 where "e0 = self\<lparr>memory_size := 4, messages := []\<rparr>"
  define t1 where "t1 = respond env e0 x1 m1"
  define t2 where "t2 = respond env (snd t1) x2 m2"
  define t3 where "t3 = respond env (snd t2) x3 m3"
  have m0: "memory_size e0 = 4" "messages e0 = []" by (simp_all add: e0_def)
  have m1: "memory_size (snd t1) = 4" by (simp add: t1_def respond_frame m0)
  have m2: "memory_size (snd t2) = 4" by (simp add: t2_def respond_frame m1)
  have h1: "messages (snd t1) = [\<lparr>role = ''user'', content = x1\<rparr>, \<lparr>role = ''assistant'', content = fst t1\<rparr>]"
    unfolding t1_def using respond_messages [of e0 env x1 m1] by (simp add: m0)
  have h2: "messages (snd t2) = [\<lparr>role = ''user'', content = x1\<rparr>, \<lparr>role = ''assistant'', content = fst t1\<rparr>,
      \<lparr>role = ''user'', content = x2\<rparr>, \<lparr>role = ''assistant'', content = fst t2\<rparr>]"
    unfolding t2_def using respond_messages [of "snd t1" env x2 m2] by (simp add: m1 h1)
  have h3: "messages (snd t3) = [\<lparr>role = ''user'', content = x2\<rparr>, \<lparr>role = ''assistant'', content = fst t2\<rparr>,
            \<lparr>role = ''user'', content = x3\<rparr>, \<lparr>role = ''assistant'', content = fst t3\<rparr>]"
    unfolding t3_def using respond_messages [of "snd t2" env x3 m3] by (simp add: m2 h2)
  have "length (get_history (snd t3)) = 4
       \<and> get_history (snd t3) =
           drop 2 [\<lparr>role = ''user'', content = x1\<rparr>, \<lparr>role = ''assistant'', content = fst t1\<rparr>,
                   \<lparr>role = ''user'', content = x2\<rparr>, \<lparr>role = ''assistant'', content = fst t2\<rparr>,
                   \<lparr>role = ''user'', content = x3\<rparr>, \<lparr>role = ''assistant'', content = fst t3\<rparr>]"
    by (simp add: get_history_def h3)
  then show ?thesis
    unfolding Let_def t3_def t2_def t1_def e0_def .
qed

theorem three_turns_capacity_four_witness:
  "get_history (snd (respond offline_env
      (snd (respond offline_env
        (snd (respond offline_env ((offline_engine 40)\<lparr>memory_size := 4, messages := []\<rparr>)
           ''one'' (Some ''chat'')))
        ''two'' (Some ''code'')))
      ''three'' None)) =
    [\<lparr>role = ''user'', content = ''two''\<rparr>,
     \<lparr>role = ''assistant'', content = fallback_prefix @ ''two''\<rparr>,
     \<lparr>role = ''user'', content = ''three''\<rparr>,
     \<lparr>role = ''assistant'', content = fallback_prefix @ ''three''\<rparr>]"
proof -
  let ?e1 = "snd (respond offline_env ((offline_engine 40)\<lparr>memory_size := 4, messages := []\<rparr>)
           ''one'' (Some ''chat''))"
  let ?e2 = "snd (respond offline_env ?e1 ''two'' (Some ''code''))"
  have r2: "fst (respond offline_env ?e1 ''two'' (Some ''code'')) = fallback_prefix @ ''two''"
    by code_simp
  have r3: "fst (respond offline_env ?e2 ''three'' None) = fallback_prefix @ ''three''"
    by code_simp
  show ?thesis
    using three_turns_capacity_four [of "offline_engine 40" offline_env "''one''" "Some ''chat''" "''two''" "Some ''code''" "''three''" None]
    by (simp add: Let_def r2 r3)
qed

lemma failing_engine_fields:
  "memory_size (failing_engine n) = n"
  "messages (failing_engine n) = []"
  "client (failing_engine n) = Some failing_client"
  "model (failing_engine n) = ''gpt-4o-mini''"
  "system_prompts (failing_engine n) = DEFAULT_SYSTEM_PROMPTS"
  "enable_wiki_in_knowledge_mode (failing_engine n) = True"
  by (simp_all add: failing_engine_def new_ChatEngine_def post_init_def failing_env_def)

section \<open>The prompt registry\<close>

text \<open>
  Claim C6. After \<^const>\<open>set_system_prompt\<close> the lookup of the same key, as \<^const>\<open>respond\<close>
  performs it, gives exactly the text that was set, for every key and every text: the
  registry is the old one updated at that key, a second set replaces the first without
  trace, and nothing else in the engine changes. No text is refused.
\<close>

theorem set_system_prompt_roundtrip:
  "system_prompts (set_system_prompt self mode prompt) = (system_prompts self)(mode \<mapsto> prompt)
   \<and> prompt_for (set_system_prompt self mode prompt) mode = prompt
   \<and> set_system_prompt (set_system_prompt self mode previous) mode prompt =
       set_system_prompt self mode prompt
   \<and> model (set_system_prompt self mode prompt) = model self
   \<and> memory_size (set_system_prompt self mode prompt) = memory_size self
   \<and> messages (set_system_prompt self mode prompt) = messages self
   \<and> client (set_system_prompt self mode prompt) = client self
   \<and> enable_wiki_in_knowledge_mode (set_system_prompt self mode prompt) =
       enable_wiki_in_knowledge_mode self"
  by (simp add: set_system_prompt_def prompt_for_def)

section \<open>Prompt assembly\<close>

lemma length_system_messages:
  "length (system_messages sp tc) = (if tc = None \<or> tc = Some [] then 1 else 2)"
  by (simp add: system_messages_def Let_def split: option.splits)

lemma roles_system_messages:
  "m \<in> set (system_messages sp tc) \<Longrightarrow> role m = ''system''"
  by (auto simp: system_messages_def Let_def split: option.splits if_splits)

text \<open>
  Claim C2, as stated, fails: the system message is always part of the result, so an
  engine with capacity 0 already gets one message more than its capacity.
\<close>

theorem build_model_messages_exceeds_capacity:
  "\<not> int (length (build_model_messages (offline_engine 0) DEFAULT_CHAT_PROMPT None))
       \<le> memory_size (offline_engine 0)"
  by (simp add: build_model_messages_def system_messages_def offline_engine_fields
      py_slice_from_def Let_def)

text \<open>
  Claim C2, amended. When \<open>memory_size\<close> is larger than the number of system messages
  (one, or two when the enrichment context is a non-empty string), the result of
  \<^const>\<open>build_model_messages\<close> is the system messages followed by the last
  \<open>memory_size\<close> minus that number messages of the history (all of the history when it
  has fewer), and its length is at most \<open>memory_size\<close>.
\<close>

theorem build_model_messages_window:
  assumes "int (length (system_messages system_prompt tool_context)) < memory_size self"
  shows "build_model_messages self system_prompt tool_context =
           system_messages system_prompt tool_context @
           drop (length (messages self) -
                 nat (memory_size self - int (length (system_messages system_prompt tool_context))))
             (messages self)
       \<and> int (length (build_model_messages self system_prompt tool_context)) \<le> memory_size self
       \<and> system_messages system_prompt tool_context =
           \<lparr>role = ''system'', content = system_prompt\<rparr> #
           (case tool_context of
              None \<Rightarrow> []
            | Some tc \<Rightarrow> if tc = [] then []
                else [\<lparr>role = ''system'', content = context_instruction @ tc\<rparr>])"
proof -
  let ?n = "int (length (system_messages system_prompt tool_context))"
  have k: "0 < memory_size self - ?n" using assms by simp
  have a: "build_model_messages self system_prompt tool_context =
           system_messages system_prompt tool_context @
           drop (length (messages self) - nat (memory_size self - ?n)) (messages self)"
    by (simp only: build_model_messages_def Let_def py_slice_from_neg [OF k])
  have b: "int (length (build_model_messages self system_prompt tool_context)) \<le> memory_size self"
    unfolding a using assms by simp
  have c: "system_messages system_prompt tool_context =
           \<lparr>role = ''system'', content = system_prompt\<rparr> #
           (case tool_context of
              None \<Rightarrow> []
            | Some tc \<Rightarrow> if tc = [] then []
                else [\<lparr>role = ''system'', content = context_instruction @ tc\<rparr>])"
    by (simp add: system_messages_def Let_def split: option.splits)
  from a b c show ?thesis by blast
qed

theorem build_model_messages_window_witness:
  "int (length (system_messages ''p'' None)) < memory_size (offline_engine 3)
   \<and> build_model_messages
        ((offline_engine 3)\<lparr>messages :=
           [\<lparr>role = ''user'', content = ''a''\<rparr>, \<lparr>role = ''assistant'', content = ''b''\<rparr>,
            \<lparr>role = ''user'', content = ''c''\<rparr>]\<rparr>) ''p'' None =
       [\<lparr>role = ''system'', content = ''p''\<rparr>,
        \<lparr>role = ''assistant'', content = ''b''\<rparr>, \<lparr>role = ''user'', content = ''c''\<rparr>]"
proof -
  let ?e = "(offline_engine 3)\<lparr>messages :=
           [\<lparr>role = ''user'', content = ''a''\<rparr>, \<lparr>role = ''assistant'', content = ''b''\<rparr>,
            \<lparr>role = ''user'', content = ''c''\<rparr>]\<rparr>"
  have h: "int (length (system_messages ''p'' None)) < memory_size ?e"
    by (simp add: length_system_messages offline_engine_fields)
  show ?thesis
    using h build_model_messages_window [OF h]
    by (simp add: length_system_messages offline_engine_fields)
qed

text \<open>
  Claim C8. The assembled sequence depends on the engine only through its capacity and
  its history: two engines that agree on both give, for the same system prompt and the
  same enrichment context, the same sequence, whatever their model, registry or client.
\<close>

theorem build_model_messages_deterministic:
  assumes "memory_size a = memory_size b" and "messages a = messages b"
  shows "build_model_messages a system_prompt tool_context =
         build_model_messages b system_prompt tool_context"
  using assms by (simp add: build_model_messages_def)

theorem build_model_messages_deterministic_witness:
  "memory_size (offline_engine 3) = memory_size ((failing_engine 3)\<lparr>model := ''other''\<rparr>)
   \<and> messages (offline_engine 3) = messages ((failing_engine 3)\<lparr>model := ''other''\<rparr>)
   \<and> model (offline_engine 3) \<noteq> model ((failing_engine 3)\<lparr>model := ''other''\<rparr>)
   \<and> client (offline_engine 3) \<noteq> client ((failing_engine 3)\<lparr>model := ''other''\<rparr>)
   \<and> build_model_messages (offline_engine 3) ''p'' (Some ''ctx'') =
       build_model_messages ((failing_engine 3)\<lparr>model := ''other''\<rparr>) ''p'' (Some ''ctx'')"
proof -
  have a: "memory_size (offline_engine 3) = memory_size ((failing_engine 3)\<lparr>model := ''other''\<rparr>)"
    by (simp add: offline_engine_fields failing_engine_fields)
  have b: "messages (offline_engine 3) = messages ((failing_engine 3)\<lparr>model := ''other''\<rparr>)"
    by (simp add: offline_engine_fields failing_engine_fields)
  show ?thesis
    using a b build_model_messages_deterministic [OF a b, of "''p''" "Some ''ctx''"]
    by (simp add: offline_engine_fields failing_engine_fields)
qed

section \<open>The local fallback\<close>

lemma call_llm_fails:
  "completion_fails env self msgs \<Longrightarrow> call_llm env self msgs = local_stub msgs"
  by (auto simp: completion_fails_def call_llm_def split: option.splits sum.splits)

lemma completion_fails_append_message:
  "completion_fails env (append_message self m) msgs = completion_fails env self msgs"
  by (simp add: completion_fails_def append_message_frame cong: option.case_cong)

lemma local_stub_last_user:
  "local_stub (msgs @ [\<lparr>role = ''user'', content = x\<rparr>]) = fallback_prefix @ take 400 x"
  by (simp add: local_stub_def py_slice_upto_take)

lemma local_stub_no_user:
  "\<forall>m \<in> set msgs. role m \<noteq> ''user'' \<Longrightarrow> local_stub msgs = fallback_prefix"
proof -
  assume "\<forall>m \<in> set msgs. role m \<noteq> ''user''"
  then have "find (\<lambda>m. role m = ''user'') (rev msgs) = None"
    by (simp add: find_None_iff)
  then show ?thesis by (simp add: local_stub_def py_slice_upto_take)
qed

lemma wiki_tool_context_chat: "wiki_tool_context env self ''chat'' x = None"
  by (simp add: wiki_tool_context_def)

lemma normalize_mode_chat: "normalize_mode (Some ''chat'') = ''chat''"
  by code_simp

lemma assembled_messages_chat_last:
  assumes "0 < memory_size self"
  shows "\<exists>pre. assembled_messages env self x (Some ''chat'') = pre @ [\<lparr>role = ''user'', content = x\<rparr>]"
proof -
  let ?u = "\<lparr>role = ''user'', content = x\<rparr>"
  let ?s = "append_message self ?u"
  let ?k = "memory_size self - 1"
  have h: "messages ?s = drop (Suc (length (messages self)) - nat (memory_size self)) (messages self @ [?u])"
    by (rule append_message_messages [OF assms])
  have "Suc (length (messages self)) - nat (memory_size self) \<le> length (messages self)"
    using assms by arith
  then have h': "messages ?s = drop (Suc (length (messages self)) - nat (memory_size self)) (messages self) @ [?u]"
    unfolding h by simp
  then obtain ys where ys: "messages ?s = ys @ [?u]" by blast
  have asm: "assembled_messages env self x (Some ''chat'') =
      [\<lparr>role = ''system'', content = prompt_for self ''chat''\<rparr>] @ py_slice_from (- ?k) (messages ?s)"
    by (simp add: assembled_messages_def normalize_mode_chat wiki_tool_context_chat
        build_model_messages_def system_messages_def Let_def append_message_frame)
  have "\<exists>zs. py_slice_from (- ?k) (ys @ [?u]) = zs @ [?u]"
  proof (cases "?k = 0")
    case True
    then show ?thesis by (simp add: py_slice_from_zero)
  next
    case False
    then have k: "0 < ?k" using assms by simp
    have "length (ys @ [?u]) - nat ?k \<le> length ys" using k by simp
    then show ?thesis unfolding py_slice_from_neg [OF k] by simp
  qed
  then show ?thesis unfolding asm ys by auto
qed

text \<open>
  Claim C4, as stated, fails for an engine with capacity 0: the user message is dropped
  from the history as soon as it is appended, the assembled sequence holds no user
  message, and the reply is the bare prefix, which does not contain the input.
\<close>

theorem fallback_without_echo:
  "completion_fails offline_env (offline_engine 0)
     (assembled_messages offline_env (offline_engine 0) ''hi'' (Some ''chat''))
   \<and> \<not> sublist (take 400 ''hi'')
         (fst (respond offline_env (offline_engine 0) ''hi'' (Some ''chat'')))"
proof -
  have a: "completion_fails offline_env (offline_engine 0)
     (assembled_messages offline_env (offline_engine 0) ''hi'' (Some ''chat''))"
    by (simp add: completion_fails_def offline_env_def)
  have b: "\<not> sublist (take 400 ''hi'')
         (fst (respond offline_env (offline_engine 0) ''hi'' (Some ''chat'')))"
    by code_simp
  from a b show ?thesis by (rule conjI)
qed

text \<open>
  Claim C4, amended. Whenever the completion is unavailable or fails, \<^const>\<open>respond\<close>
  returns the local fallback: the fixed prefix followed by the first 400 characters of
  the content of the last user message of the assembled sequence, and the bare prefix
  when that sequence has no user message; no case of the model raises. For an engine with
  \<open>memory_size > 0\<close>, \<open>respond x "chat"\<close> returns the prefix followed by the first 400
  characters of \<open>x\<close>.
\<close>

theorem respond_fallback:
  assumes "completion_fails env self (assembled_messages env self user_input mode)"
  shows "fst (respond env self user_input mode) =
           local_stub (assembled_messages env self user_input mode)
       \<and> local_stub (assembled_messages env self user_input mode) =
           fallback_prefix @
           take 400 (case find (\<lambda>m. role m = ''user'')
                            (rev (assembled_messages env self user_input mode)) of
                       Some m \<Rightarrow> content m | None \<Rightarrow> [])
       \<and> ((\<forall>m \<in> set (assembled_messages env self user_input mode). role m \<noteq> ''user'') \<longrightarrow>
            fst (respond env self user_input mode) = fallback_prefix)
       \<and> (0 < memory_size self \<and> mode = Some ''chat'' \<longrightarrow>
            fst (respond env self user_input mode) = fallback_prefix @ take 400 user_input)"
proof -
  let ?msgs = "assembled_messages env self user_input mode"
  have a: "fst (respond env self user_input mode) = local_stub ?msgs"
    using assms by (simp add: respond_reply call_llm_fails completion_fails_append_message)
  have b: "local_stub ?msgs = fallback_prefix @
           take 400 (case find (\<lambda>m. role m = ''user'') (rev ?msgs) of
                       Some m \<Rightarrow> content m | None \<Rightarrow> [])"
    by (simp add: local_stub_def py_slice_upto_take)
  have c: "fst (respond env self user_input mode) = fallback_prefix"
    if "\<forall>m \<in> set ?msgs. role m \<noteq> ''user''"
    using that a by (simp add: local_stub_no_user)
  have d: "fst (respond env self user_input mode) = fallback_prefix @ take 400 user_input"
    if "0 < memory_size self \<and> mode = Some ''chat''"
  proof -
    from that assembled_messages_chat_last [of self env user_input]
    obtain pre where "?msgs = pre @ [\<lparr>role = ''user'', content = user_input\<rparr>]" by auto
    then show ?thesis using a by (simp add: local_stub_last_user)
  qed
  from a b c d show ?thesis by blast
qed

theorem respond_fallback_witness:
  "completion_fails failing_env (failing_engine 1)
     (assembled_messages failing_env (failing_engine 1) ''hello'' (Some ''chat''))
   \<and> 0 < memory_size (failing_engine 1)
   \<and> fst (respond failing_env (failing_engine 1) ''hello'' (Some ''chat'')) =
       fallback_prefix @ ''hello''"
proof -
  have f: "completion_fails failing_env (failing_engine 1)
     (assembled_messages failing_env (failing_engine 1) ''hello'' (Some ''chat''))"
    by (simp add: completion_fails_def failing_engine_fields failing_client_def)
  have m: "0 < memory_size (failing_engine 1)"
    by (simp add: failing_engine_fields)
  from respond_fallback [OF f] m
  have "fst (respond failing_env (failing_engine 1) ''hello'' (Some ''chat'')) =
       fallback_prefix @ take 400 ''hello''"
    by (elim conjE) simp
  with f m show ?thesis by simp
qed

section \<open>Enrichment fails soft\<close>

lemma wiki_tool_context_unusable:
  "enrichment_unusable env x \<Longrightarrow> wiki_tool_context env self mode_key x = None"
  by (auto simp: enrichment_unusable_def wiki_tool_context_def split: sum.splits)

lemma wiki_tool_context_no_wiki:
  "wiki_tool_context (env\<lparr>HAS_WIKI := False\<rparr>) self mode_key x = None"
  by (simp add: wiki_tool_context_def)

lemma call_llm_HAS_WIKI:
  "call_llm (env\<lparr>HAS_WIKI := b\<rparr>) self msgs = call_llm env self msgs"
  by (simp add: call_llm_def)

lemma set_py_slice_from: "set (py_slice_from i xs) \<subseteq> set xs"
  by (simp add: py_slice_from_def set_drop_subset)

lemma set_append_message:
  "set (messages (append_message self m)) \<subseteq> insert m (set (messages self))"
proof -
  have "set (py_del_upto j (messages self @ [m])) \<subseteq> insert m (set (messages self))" for j
    using set_drop_subset [of _ "messages self @ [m]"] by (auto simp: py_del_upto_def)
  then show ?thesis by (auto simp: append_message_def Let_def)
qed

text \<open>
  A history without system messages stays so across a turn: \<^const>\<open>respond\<close> appends one
  user and one assistant message and otherwise only drops messages.
\<close>

lemma respond_history_without_system:
  assumes "\<forall>m \<in> set (messages self). role m \<noteq> ''system''"
  shows "\<forall>m \<in> set (messages (snd (respond env self user_input mode))). role m \<noteq> ''system''"
proof
  fix m
  let ?u = "\<lparr>role = ''user'', content = user_input\<rparr>"
  let ?a = "\<lparr>role = ''assistant'', content = fst (respond env self user_input mode)\<rparr>"
  assume "m \<in> set (messages (snd (respond env self user_input mode)))"
  then have "m \<in> insert ?a (set (messages (append_message self ?u)))"
    using set_append_message [of "append_message self ?u" ?a]
    by (auto simp: respond_engine)
  then have "m = ?a \<or> m = ?u \<or> m \<in> set (messages self)"
    using set_append_message [of self ?u] by auto
  then show "role m \<noteq> ''system''"
    using assms by auto
qed

text \<open>
  Claim C7. In knowledge mode, when the enrichment lookup raises or returns a string that
  is empty after stripping, no context is attached: the assembled sequence is the one
  system message with the knowledge prompt followed by the slice of the history, it holds
  exactly one system message when the history holds none, and the whole turn has the
  result it has when no enrichment is available at all. The lookup's exception is a value
  the model handles, so the turn always returns.
\<close>

theorem enrichment_fails_soft:
  assumes "normalize_mode mode = ''knowledge''"
    and "enrichment_unusable env user_input"
  shows "wiki_tool_context env (append_message self \<lparr>role = ''user'', content = user_input\<rparr>)
           ''knowledge'' user_input = None
       \<and> assembled_messages env self user_input mode =
           \<lparr>role = ''system'', content = prompt_for self ''knowledge''\<rparr> #
           py_slice_from (1 - memory_size self)
             (messages (append_message self \<lparr>role = ''user'', content = user_input\<rparr>))
       \<and> ((\<forall>m \<in> set (messages self). role m \<noteq> ''system'') \<longrightarrow>
            length (filter (\<lambda>m. role m = ''system'')
                      (assembled_messages env self user_input mode)) = 1)
       \<and> respond env self user_input mode =
           respond (env\<lparr>HAS_WIKI := False\<rparr>) self user_input mode"
proof -
  let ?u = "\<lparr>role = ''user'', content = user_input\<rparr>"
  let ?s = "append_message self ?u"
  have a: "wiki_tool_context env ?s ''knowledge'' user_input = None"
    by (rule wiki_tool_context_unusable [OF assms(2)])
  have b: "assembled_messages env self user_input mode =
           \<lparr>role = ''system'', content = prompt_for self ''knowledge''\<rparr> #
           py_slice_from (1 - memory_size self) (messages ?s)"
    by (simp add: assembled_messages_def assms(1) a build_model_messages_def
        system_messages_def Let_def append_message_frame)
  have c: "(\<forall>m \<in> set (messages self). role m \<noteq> ''system'') \<longrightarrow>
            length (filter (\<lambda>m. role m = ''system'')
                      (assembled_messages env self user_input mode)) = 1"
  proof
    assume clean: "\<forall>m \<in> set (messages self). role m \<noteq> ''system''"
    have "set (py_slice_from (1 - memory_size self) (messages ?s)) \<subseteq> set (messages ?s)"
      by (rule set_py_slice_from)
    also have "\<dots> \<subseteq> insert ?u (set (messages self))"
      by (rule set_append_message)
    finally have sub: "set (py_slice_from (1 - memory_size self) (messages ?s))
        \<subseteq> insert ?u (set (messages self))" .
    have "role m \<noteq> ''system''"
      if "m \<in> set (py_slice_from (1 - memory_size self) (messages ?s))" for m
    proof -
      from that sub have "m = ?u \<or> m \<in> set (messages self)" by auto
      then show ?thesis
      proof
        assume "m = ?u"
        then show ?thesis by simp
      next
        assume "m \<in> set (messages self)"
        with clean show ?thesis by simp
      qed
    qed
    then have "filter (\<lambda>m. role m = ''system'')
        (py_slice_from (1 - memory_size self) (messages ?s)) = []"
      by (simp add: filter_empty_conv)
    then show "length (filter (\<lambda>m. role m = ''system'')
                      (assembled_messages env self user_input mode)) = 1"
      unfolding b by simp
  qed
  have d: "respond env self user_input mode =
           respond (env\<lparr>HAS_WIKI := False\<rparr>) self user_input mode"
    by (simp add: respond_def Let_def assms(1) a wiki_tool_context_no_wiki call_llm_HAS_WIKI)
  show ?thesis
    by (intro conjI) (fact a, fact b, fact c, fact d)
qed

theorem enrichment_fails_soft_witness:
  "normalize_mode (Some ''Facts'') = ''knowledge''
   \<and> enrichment_unusable blank_wiki_env ''Taj Mahal''
   \<and> HAS_WIKI blank_wiki_env
   \<and> enable_wiki_in_knowledge_mode (offline_engine 4)
   \<and> assembled_messages blank_wiki_env (offline_engine 4) ''Taj Mahal'' (Some ''Facts'') =
       [\<lparr>role = ''system'', content = DEFAULT_KNOWLEDGE_PROMPT\<rparr>,
        \<lparr>role = ''user'', content = ''Taj Mahal''\<rparr>]"
proof -
  have n: "normalize_mode (Some ''Facts'') = ''knowledge''" by code_simp
  have u: "enrichment_unusable blank_wiki_env ''Taj Mahal''"
    by (simp add: enrichment_unusable_def blank_wiki_env_def py_strip_def py_lstrip_def
        py_rstrip_def py_isspace_def)
  have w: "HAS_WIKI blank_wiki_env" by (simp add: blank_wiki_env_def)
  have p: "prompt_for (offline_engine 4) ''knowledge'' = DEFAULT_KNOWLEDGE_PROMPT"
    by (simp add: prompt_for_def offline_engine_fields DEFAULT_SYSTEM_PROMPTS_def)
  have h: "messages (append_message (offline_engine 4) \<lparr>role = ''user'', content = ''Taj Mahal''\<rparr>) =
      [\<lparr>role = ''user'', content = ''Taj Mahal''\<rparr>]"
    by (simp add: append_message_messages offline_engine_fields)
  from enrichment_fails_soft [OF n u, of "offline_engine 4"]
  have "assembled_messages blank_wiki_env (offline_engine 4) ''Taj Mahal'' (Some ''Facts'') =
       \<lparr>role = ''system'', content = prompt_for (offline_engine 4) ''knowledge''\<rparr> #
           py_slice_from (1 - memory_size (offline_engine 4))
             (messages (append_message (offline_engine 4) \<lparr>role = ''user'', content = ''Taj Mahal''\<rparr>))"
    by (elim conjE)
  then have "assembled_messages blank_wiki_env (offline_engine 4) ''Taj Mahal'' (Some ''Facts'') =
       [\<lparr>role = ''system'', content = DEFAULT_KNOWLEDGE_PROMPT\<rparr>,
        \<lparr>role = ''user'', content = ''Taj Mahal''\<rparr>]"
    by (simp add: p h offline_engine_fields py_slice_from_def py_slice_index_def)
  with n u w show ?thesis by (simp add: offline_engine_fields)
qed

text \<open>
  With \<^const>\<open>get_summary\<close> of \<^verbatim>\<open>knowledge.py\<close> as the lookup, a missing page is not an
  unusable result: the function catches the exception and returns its message, which
  \<^const>\<open>respond\<close> attaches as context like any summary.
\<close>

lemma get_summary_page_error_attached:
  assumes "wikipedia query 4 = PageError"
    and "wiki_summary env = (\<lambda>q n. Inr (get_summary wikipedia q n))"
  shows "\<not> enrichment_unusable env query"
proof -
  define pre where "pre = ''No Wikipedia page found for '' @ [CHR 0x27] @ query @ [CHR 0x27]"
  have g: "get_summary wikipedia query 4 = pre @ ''.''"
    using assms(1) by (simp add: get_summary_def pre_def)
  have l: "py_lstrip (pre @ ''.'') = pre @ ''.''"
    by (simp add: pre_def py_lstrip_def py_isspace_def)
  have r: "py_rstrip (pre @ ''.'') \<noteq> []"
    by (simp add: py_rstrip_def py_isspace_def)
  have "py_strip (get_summary wikipedia query 4) \<noteq> []"
    unfolding g py_strip_def l by (rule r)
  then show ?thesis
    by (simp add: enrichment_unusable_def assms(2))
qed

section \<open>Overrides under a label that is not canonical\<close>

lemma normalize_mode_canonical_key:
  "normalize_mode mode \<in> {''chat'', ''code'', ''knowledge''}"
  by (simp add: normalize_mode_def Let_def)

lemma append_message_set_system_prompt:
  "append_message (set_system_prompt self k p) m = set_system_prompt (append_message self m) k p"
  by (simp add: append_message_def set_system_prompt_def Let_def)

lemma build_model_messages_set_system_prompt:
  "build_model_messages (set_system_prompt self k p) sp tc = build_model_messages self sp tc"
  by (simp add: build_model_messages_def set_system_prompt_def)

lemma wiki_tool_context_set_system_prompt:
  "wiki_tool_context env (set_system_prompt self k p) mk x = wiki_tool_context env self mk x"
  by (simp add: wiki_tool_context_def set_system_prompt_def)

lemma call_llm_set_system_prompt:
  "call_llm env (set_system_prompt self k p) msgs = call_llm env self msgs"
  by (simp add: call_llm_def set_system_prompt_def cong: option.case_cong)

lemma prompt_for_other_key:
  "k \<noteq> k' \<Longrightarrow> prompt_for (set_system_prompt self k p) k' = prompt_for self k'"
  by (simp add: prompt_for_def set_system_prompt_def)

text \<open>
  Claim C10. \<^const>\<open>set_system_prompt\<close> stores the text under the label as given, while
  \<^const>\<open>respond\<close> looks the prompt up under the normalised key, which is always one of
  \<open>chat\<close>, \<open>code\<close>, \<open>knowledge\<close>. So for every label that is not itself one of these
  three (a synonym such as \<open>programming\<close> or \<open>facts\<close>, or a canonical name in other case or
  with whitespace around it), a turn with that label uses the prompt stored for the
  canonical mode, and assembles, replies and updates the history exactly as if the
  override had never been set.
\<close>

theorem override_under_synonym_ignored:
  assumes "label \<notin> {''chat'', ''code'', ''knowledge''}"
  shows "system_prompts (set_system_prompt self label p) label = Some p
       \<and> normalize_mode (Some label) \<noteq> label
       \<and> prompt_for (set_system_prompt self label p) (normalize_mode (Some label)) =
           prompt_for self (normalize_mode (Some label))
       \<and> assembled_messages env (set_system_prompt self label p) user_input (Some label) =
           assembled_messages env self user_input (Some label)
       \<and> fst (respond env (set_system_prompt self label p) user_input (Some label)) =
           fst (respond env self user_input (Some label))
       \<and> snd (respond env (set_system_prompt self label p) user_input (Some label)) =
           set_system_prompt (snd (respond env self user_input (Some label))) label p"
proof -
  let ?k = "normalize_mode (Some label)"
  have a: "system_prompts (set_system_prompt self label p) label = Some p"
    by (simp add: set_system_prompt_def)
  have b: "?k \<noteq> label"
    using assms normalize_mode_canonical_key [of "Some label"] by metis
  then have c: "prompt_for (set_system_prompt self label p) ?k = prompt_for self ?k"
    by (simp add: prompt_for_other_key)
  have d: "assembled_messages env (set_system_prompt self label p) user_input (Some label) =
           assembled_messages env self user_input (Some label)"
    by (simp add: assembled_messages_def Let_def c append_message_set_system_prompt
        build_model_messages_set_system_prompt wiki_tool_context_set_system_prompt)
  have e: "fst (respond env (set_system_prompt self label p) user_input (Some label)) =
           fst (respond env self user_input (Some label))"
    by (simp add: respond_reply d append_message_set_system_prompt call_llm_set_system_prompt)
  have f: "snd (respond env (set_system_prompt self label p) user_input (Some label)) =
           set_system_prompt (snd (respond env self user_input (Some label))) label p"
    by (simp add: respond_engine e append_message_set_system_prompt)
  show ?thesis
    by (intro conjI) (fact a, fact b, fact c, fact d, fact e, fact f)
qed

theorem override_under_synonym_ignored_witness:
  "''Programming'' \<notin> {''chat'', ''code'', ''knowledge''}
   \<and> normalize_mode (Some ''Programming'') = ''code''
   \<and> system_prompts (set_system_prompt (offline_engine 4) ''Programming'' ''override'')
        ''Programming'' = Some ''override''
   \<and> prompt_for (set_system_prompt (offline_engine 4) ''Programming'' ''override'')
        (normalize_mode (Some ''Programming'')) = DEFAULT_CODE_PROMPT"
proof -
  have h: "''Programming'' \<notin> {''chat'', ''code'', ''knowledge''}" by simp
  have n: "normalize_mode (Some ''Programming'') = ''code''" by code_simp
  have p: "prompt_for (offline_engine 4) ''code'' = DEFAULT_CODE_PROMPT"
    by (simp add: prompt_for_def offline_engine_fields DEFAULT_SYSTEM_PROMPTS_def)
  note t = override_under_synonym_ignored [OF h, of "offline_engine 4" "''override''" offline_env "''hi''"]
  from t have 1: "system_prompts (set_system_prompt (offline_engine 4) ''Programming'' ''override'')
        ''Programming'' = Some ''override''"
    by (elim conjE)
  from t have 2: "prompt_for (set_system_prompt (offline_engine 4) ''Programming'' ''override'')
        (normalize_mode (Some ''Programming'')) =
      prompt_for (offline_engine 4) (normalize_mode (Some ''Programming''))"
    by (elim conjE)
  show ?thesis
    using h n 1 2 p by (simp only:) simp
qed

section \<open>The history copy\<close>

lemma get_history_store_result:
  "get_history_store h r =
     (next_ref h, h\<lparr>lists := (lists h)(next_ref h := lists h r), next_ref := Suc (next_ref h)\<rparr>)"
  by (simp add: get_history_store_def Let_def)

text \<open>
  Claim C9. \<^verbatim>\<open>get_history\<close> returns a new list object with the items of the history, in
  the same order. The call leaves the engine's list and every message object as they
  were, and whatever is later done to the returned list object (any function \<open>f\<close> applied
  to its items in place) leaves the engine's list unchanged. On values, the result is the
  history itself.
\<close>

theorem get_history_copy:
  assumes "store_ok h" and "lists h r = Some items"
  shows "fst (get_history_store h r) \<noteq> r
       \<and> lists (snd (get_history_store h r)) (fst (get_history_store h r)) = Some items
       \<and> read_list (snd (get_history_store h r)) (fst (get_history_store h r)) = read_list h r
       \<and> lists (snd (get_history_store h r)) r = Some items
       \<and> read_list (snd (get_history_store h r)) r = read_list h r
       \<and> dicts (snd (get_history_store h r)) = dicts h
       \<and> lists (mutate_list (snd (get_history_store h r)) (fst (get_history_store h r)) f) r
           = Some items
       \<and> read_list (mutate_list (snd (get_history_store h r)) (fst (get_history_store h r)) f) r
           = read_list h r
       \<and> store_ok (snd (get_history_store h r))
       \<and> get_history self = messages self"
proof -
  have "r \<in> dom (lists h)" using assms(2) by auto
  then have lt: "r < next_ref h" using assms(1) by (simp add: store_ok_def)
  then have ne: "next_ref h \<noteq> r" by simp
  have ok: "store_ok (snd (get_history_store h r))"
    using assms(1) by (auto simp: store_ok_def get_history_store_result less_Suc_eq split: if_splits)
  show ?thesis
    using ne assms(2) ok
    by (simp add: get_history_store_result mutate_list_def read_list_def get_history_def)
qed

theorem get_history_copy_witness:
  "store_ok example_store \<and> lists example_store 0 = Some [1, 2]
   \<and> fst (get_history_store example_store 0) = 3
   \<and> lists (snd (get_history_store example_store 0)) 3 = Some [1, 2]
   \<and> lists (mutate_list (snd (get_history_store example_store 0)) 3 (\<lambda>xs. [])) 3 = Some []
   \<and> lists (mutate_list (snd (get_history_store example_store 0)) 3 (\<lambda>xs. [])) 0 = Some [1, 2]"
proof -
  have ok: "store_ok example_store"
    by (simp add: store_ok_def example_store_def)
  have l: "lists example_store 0 = Some [1, 2]"
    by (simp add: example_store_def)
  have f: "fst (get_history_store example_store 0) = 3"
    by (simp add: get_history_store_result example_store_def)
  show ?thesis
    using ok l f get_history_copy [OF ok l, of "\<lambda>xs. []"]
    by (simp add: mutate_list_def)
qed

text \<open>
  The copy is shallow: the two lists hold the same message objects, so a change made to a
  message object itself, reached through either list, is seen through both.
\<close>

lemma get_history_store_shares_messages:
  assumes "store_ok h" and "lists h r = Some items" and "d \<in> set items"
  shows "read_list (mutate_dict (snd (get_history_store h r)) d f) r =
         Some (map ((dicts h)(d := map_option f (dicts h d))) items)"
  using assms
  by (simp add: get_history_store_result mutate_dict_def read_list_def store_ok_def)

end
